theory Spec2Isabelle
  imports Main
begin

section \<open>The WebRTC player component\<close>

text \<open>
  The component \<^verbatim>\<open>ha-web-rtc-player\<close> (class \<^verbatim>\<open>HaWebRtcPlayer\<close>) is a thin coordinator
  around the browser's \<^verbatim>\<open>RTCPeerConnection\<close> and three calls of the data layer
  (\<^verbatim>\<open>fetchWebRtcClientConfiguration\<close>, \<^verbatim>\<open>webRtcOffer\<close>, \<^verbatim>\<open>addWebRtcCandidate\<close>).
  The repository holds two copies of the class. The definitions below follow the copy that
  declares the session fields \<^verbatim>\<open>_unsub\<close>, \<^verbatim>\<open>_sessionId\<close> and \<^verbatim>\<open>_candidatesList\<close>
  (\<^verbatim>\<open>src/unnamed/part_000\<close>). The copy under \<^verbatim>\<open>src/components\<close> uses the same three
  fields without declaring them; it differs in \<^verbatim>\<open>_cleanUp\<close> and in \<^verbatim>\<open>_startWebRtc\<close>
  (no clean-up at the start, and the connection is kept in a local variable until the
  offer is installed). Those two methods, and the lifecycle methods that call them, are
  embedded a second time with the suffix \<open>_components\<close>, after the methods; the other
  methods are the same in both copies.

  Everything the component does to the outside is a call: of the data layer, of a peer
  connection, of a media track, of the video element, or the \<^verbatim>\<open>fireEvent\<close> helper.
  The model records these calls in the order they are made. The \<^verbatim>\<open>console.time\<close>
  diagnostics and the opaque \<^verbatim>\<open>hass\<close> handle passed to the data layer are left out.
\<close>

subsection \<open>Data\<close>

type_synonym pc_ref = nat
type_synonym stream_ref = nat
type_synonym sub_ref = nat
type_synonym task_ref = nat

text \<open>The result of \<^verbatim>\<open>fetchWebRtcClientConfiguration\<close>.\<close>

record client_config =
  configuration :: string
  dataChannel :: "string option"

text \<open>
  A peer connection of the platform, as far as the component touches it. The field
  \<open>pc_candidates\<close> is the local variable \<^verbatim>\<open>candidates\<close> of the invocation of
  \<^verbatim>\<open>_startWebRtc\<close> that created the connection: the \<^verbatim>\<open>icecandidate\<close> listener
  registered on the connection captures it. \<open>pc_trackStreams\<close> are the \<^verbatim>\<open>MediaStream\<close>
  objects captured by the \<^verbatim>\<open>track\<close> listeners registered on the connection.
\<close>

record peer_connection =
  pc_configuration :: string
  pc_closed :: bool
  pc_dataChannels :: "string list"
  pc_transceivers :: "(string \<times> string) list"
  pc_candidates :: string
  pc_trackStreams :: "stream_ref list"

datatype call =
    FetchWebRtcClientConfiguration string
  | NewRTCPeerConnection pc_ref string
  | CreateDataChannel pc_ref string
  | AddTransceiver pc_ref string string
  | ListenIceCandidate pc_ref
  | CreateOffer pc_ref bool bool
  | SetLocalDescription pc_ref string
  | WebRtcOffer string string
  | NewMediaStream stream_ref
  | ListenTrack pc_ref stream_ref
  | AddWebRtcCandidate string string string
  | SetRemoteDescription pc_ref string
  | AddIceCandidate pc_ref string
  | Close pc_ref
  | TrackStop string
  | Unsubscribe sub_ref
  | VideoRemoveSrc
  | VideoLoad
  | FireEvent string

text \<open>
  An \<^verbatim>\<open>async\<close> function runs until its next \<^verbatim>\<open>await\<close> and is resumed when the awaited
  promise settles; other handlers run in between. A suspended invocation is a task, and
  its phase says at which \<^verbatim>\<open>await\<close> it waits, with the local variables it still needs:
  the connection whose listener holds its \<^verbatim>\<open>candidates\<close> variable, and \<^verbatim>\<open>offer.sdp\<close>.
\<close>

datatype phase =
    AwaitConfig
  | AwaitOffer pc_ref
  | AwaitLocal pc_ref string
  | AwaitRemote pc_ref
  | Settled

text \<open>
  The fields of the class, followed by the objects of the platform the component has
  created (\<open>pcs\<close>, \<open>streams\<close>: a reference is an index), the number of signalling
  subscriptions made, the subscription promises on which a clean-up has registered its
  \<^verbatim>\<open>then\<close> callback that has not run yet, the tasks and the calls made so far.
\<close>

record player =
  entityid :: string
  hasUpdated :: bool
  error :: "string option"
  videoEl :: bool
  srcObject :: "stream_ref option"
  peerConnection :: "pc_ref option"
  remoteStream :: "stream_ref option"
  unsub :: "sub_ref option"
  sessionId :: "string option"
  candidatesList :: "string list"
  pcs :: "peer_connection list"
  streams :: "string list list"
  subscriptions :: nat
  unsubscribing :: "sub_ref list"
  tasks :: "phase list"
  calls :: "call list"

definition init :: "bool \<Rightarrow> player" where
  "init v = \<lparr> entityid = [], hasUpdated = False, error = None, videoEl = v,
     srcObject = None, peerConnection = None, remoteStream = None, unsub = None,
     sessionId = None, candidatesList = [], pcs = [], streams = [], subscriptions = 0,
     unsubscribing = [], tasks = [], calls = [] \<rparr>"

text \<open>The signalling events of \<^verbatim>\<open>WebRtcOfferEvent\<close>; the handler looks at three types.\<close>

datatype offer_event =
    Session_id string
  | Answer string
  | Candidate string
  | Other_type string

datatype view = Alert string | Video

subsection \<open>Helpers\<close>

text \<open>JavaScript truthiness of an optional string: \<^verbatim>\<open>undefined\<close> and \<^verbatim>\<open>""\<close> are falsy.\<close>

fun truthy :: "string option \<Rightarrow> bool" where
  "truthy None = False"
| "truthy (Some v) = (v \<noteq> [])"

definition invoke :: "call \<Rightarrow> player \<Rightarrow> player" where
  "invoke c s = s\<lparr>calls := calls s @ [c]\<rparr>"

definition invokes :: "call list \<Rightarrow> player \<Rightarrow> player" where
  "invokes cs s = s\<lparr>calls := calls s @ cs\<rparr>"

definition map_at :: "nat \<Rightarrow> ('a \<Rightarrow> 'a) \<Rightarrow> 'a list \<Rightarrow> 'a list" where
  "map_at i f xs = (if i < length xs then xs[i := f (xs ! i)] else xs)"

definition tracksOf :: "player \<Rightarrow> stream_ref \<Rightarrow> string list" where
  "tracksOf s r = (if r < length (streams s) then streams s ! r else [])"

definition candidatesOf :: "player \<Rightarrow> pc_ref \<Rightarrow> string" where
  "candidatesOf s p = (if p < length (pcs s) then pc_candidates (pcs s ! p) else [])"

definition phaseOf :: "player \<Rightarrow> task_ref \<Rightarrow> phase" where
  "phaseOf s t = (if t < length (tasks s) then tasks s ! t else Settled)"

definition settle :: "task_ref \<Rightarrow> player \<Rightarrow> player" where
  "settle t s = s\<lparr>tasks := (tasks s)[t := Settled]\<rparr>"

definition suspend :: "task_ref \<Rightarrow> phase \<Rightarrow> player \<Rightarrow> player" where
  "suspend t ph s = s\<lparr>tasks := (tasks s)[t := ph]\<rparr>"

text \<open>\<^verbatim>\<open>RTCPeerConnection.close()\<close>.\<close>

definition close :: "pc_ref \<Rightarrow> player \<Rightarrow> player" where
  "close p s = invoke (Close p) (s\<lparr>pcs := map_at p (\<lambda>c. c\<lparr>pc_closed := True\<rparr>) (pcs s)\<rparr>)"

definition live :: "player \<Rightarrow> pc_ref list" where
  "live s = filter (\<lambda>p. \<not> pc_closed (pcs s ! p)) [0 ..< length (pcs s)]"

definition crlf :: string where
  "crlf = [CHR 0x0D, CHR 0x0A]"

subsection \<open>The methods of the class\<close>

definition render :: "player \<Rightarrow> view" where
  "render s = (case error s of
       Some e \<Rightarrow> if e \<noteq> [] then Alert e else Video
     | None \<Rightarrow> Video)"

definition cleanUp :: "player \<Rightarrow> player" where
  "cleanUp s =
    (let s1 = (case remoteStream s of
                 Some r \<Rightarrow> (invokes (map TrackStop (tracksOf s r)) s)\<lparr>remoteStream := None\<rparr>
               | None \<Rightarrow> s);
         s2 = (if videoEl s1 then invokes [VideoRemoveSrc, VideoLoad] s1 else s1);
         s3 = (case peerConnection s2 of
                 Some p \<Rightarrow> (close p s2)\<lparr>peerConnection := None\<rparr>
               | None \<Rightarrow> s2);
         s4 = (case unsub s3 of
                 Some u \<Rightarrow> s3\<lparr>unsubscribing := unsubscribing s3 @ [u]\<rparr>
               | None \<Rightarrow> s3)
     in s4\<lparr>unsub := None, sessionId := None, candidatesList := []\<rparr>)"

text \<open>
  The line \<^verbatim>\<open>this._unsub?.then((unsub) => unsub())\<close> of the clean-up calls nothing
  yet: it registers a callback on the subscription promise. The callback runs later,
  once the promise has resolved (never, if it is rejected), and calls the unsubscribe
  function then.
\<close>

definition unsubThen :: "sub_ref \<Rightarrow> player \<Rightarrow> player" where
  "unsubThen u s =
    (if u \<in> set (unsubscribing s)
     then invoke (Unsubscribe u) (s\<lparr>unsubscribing := remove1 u (unsubscribing s)\<rparr>)
     else s)"

text \<open>
  \<^verbatim>\<open>_startWebRtc\<close> up to its first \<^verbatim>\<open>await\<close>: the new task waits for the configuration.
\<close>

definition startWebRtc :: "player \<Rightarrow> player" where
  "startWebRtc s =
    (let s1 = cleanUp s;
         s2 = s1\<lparr>error := None\<rparr>;
         s3 = invoke (FetchWebRtcClientConfiguration (entityid s2)) s2
     in s3\<lparr>tasks := tasks s3 @ [AwaitConfig]\<rparr>)"

text \<open>
  Resumed after \<^verbatim>\<open>await fetchWebRtcClientConfiguration\<close>. The \<^verbatim>\<open>await\<close> is in no
  \<^verbatim>\<open>try\<close> block: a rejection (\<open>Inl\<close>) ends the invocation and nothing else runs.
  Otherwise the function runs to \<^verbatim>\<open>await createOffer\<close>.
\<close>

definition startWebRtc_afterConfig ::
    "task_ref \<Rightarrow> string + client_config \<Rightarrow> player \<Rightarrow> player" where
  "startWebRtc_afterConfig t r s =
    (case r of
       Inl err \<Rightarrow> settle t s
     | Inr clientConfig \<Rightarrow>
        (let p = length (pcs s);
             dc = (if truthy (dataChannel clientConfig)
                   then [the (dataChannel clientConfig)] else []);
             pc = \<lparr> pc_configuration = configuration clientConfig, pc_closed = False,
                    pc_dataChannels = dc,
                    pc_transceivers = [(''audio'', ''recvonly''), (''video'', ''recvonly'')],
                    pc_candidates = [], pc_trackStreams = [] \<rparr>;
             s1 = invoke (NewRTCPeerConnection p (configuration clientConfig))
                    (s\<lparr>pcs := pcs s @ [pc], peerConnection := Some p\<rparr>);
             s2 = invokes (map (CreateDataChannel p) dc) s1;
             s3 = invokes [AddTransceiver p ''audio'' ''recvonly'',
                           AddTransceiver p ''video'' ''recvonly''] s2;
             s4 = s3\<lparr>candidatesList := []\<rparr>;
             s5 = invoke (ListenIceCandidate p) s4;
             s6 = invoke (CreateOffer p True True) s5
         in suspend t (AwaitOffer p) s6))"

text \<open>
  Resumed after \<^verbatim>\<open>await createOffer\<close>; runs to \<^verbatim>\<open>await setLocalDescription\<close>. The
  method is called on \<^verbatim>\<open>this._peerConnection\<close>, which a clean-up may have cleared
  meanwhile: then the call raises a TypeError and the invocation ends.
\<close>

definition startWebRtc_afterOffer ::
    "task_ref \<Rightarrow> pc_ref \<Rightarrow> string + string \<Rightarrow> player \<Rightarrow> player" where
  "startWebRtc_afterOffer t p r s =
    (case r of
       Inl err \<Rightarrow> settle t s
     | Inr sdp \<Rightarrow>
        (case peerConnection s of
           None \<Rightarrow> settle t s
         | Some q \<Rightarrow> suspend t (AwaitLocal p sdp) (invoke (SetLocalDescription q sdp) s)))"

text \<open>
  Resumed after \<^verbatim>\<open>await setLocalDescription\<close> (\<open>r\<close> is its rejection, if any); runs to
  the end of the function. \<open>w\<close> is what \<^verbatim>\<open>webRtcOffer\<close> does when called: \<open>Some m\<close> when
  it throws an error with message \<open>m\<close>, \<open>None\<close> when it returns the subscription.
\<close>

definition startWebRtc_afterLocal ::
    "task_ref \<Rightarrow> pc_ref \<Rightarrow> string \<Rightarrow> string option \<Rightarrow> string option \<Rightarrow> player \<Rightarrow> player" where
  "startWebRtc_afterLocal t p sdp r w s =
    (case r of
       Some err \<Rightarrow> settle t s
     | None \<Rightarrow>
        (let offer_sdp = sdp @ candidatesOf s p;
             s1 = invoke (WebRtcOffer (entityid s) offer_sdp) s
         in case w of
              Some m \<Rightarrow>
                (let s2 = s1\<lparr>error := Some (''Failed to start WebRTC stream: '' @ m)\<rparr>
                 in case peerConnection s2 of
                      None \<Rightarrow> settle t s2
                    | Some q \<Rightarrow> settle t (close q s2))
            | None \<Rightarrow>
                (let u = subscriptions s1;
                     s2 = s1\<lparr>unsub := Some u, subscriptions := Suc u\<rparr>;
                     m = length (streams s2);
                     s3 = invoke (NewMediaStream m) (s2\<lparr>streams := streams s2 @ [[]]\<rparr>)
                 in case peerConnection s3 of
                      None \<Rightarrow> settle t s3
                    | Some q \<Rightarrow>
                        settle t ((invoke (ListenTrack q m)
                          (s3\<lparr>pcs := map_at q
                                 (\<lambda>c. c\<lparr>pc_trackStreams := pc_trackStreams c @ [m]\<rparr>)
                                 (pcs s3)\<rparr>))
                          \<lparr>remoteStream := Some m\<rparr>))))"

text \<open>
  The \<^verbatim>\<open>icecandidate\<close> listener registered on connection \<open>p\<close>; \<open>cand\<close> is
  \<^verbatim>\<open>event.candidate?.candidate\<close>.
\<close>

definition onIceCandidate :: "pc_ref \<Rightarrow> string option \<Rightarrow> player \<Rightarrow> player" where
  "onIceCandidate p cand s =
    (if \<not> truthy cand then s
     else if truthy (sessionId s)
       then invoke (AddWebRtcCandidate (entityid s) (the (sessionId s)) (the cand)) s
     else if unsub s \<noteq> None
       then s\<lparr>candidatesList := candidatesList s @ [the cand]\<rparr>
     else s\<lparr>pcs := map_at p
            (\<lambda>pc. pc\<lparr>pc_candidates := pc_candidates pc @ ''a='' @ the cand @ crlf\<rparr>)
            (pcs s)\<rparr>)"

text \<open>The \<^verbatim>\<open>track\<close> listeners registered on connection \<open>p\<close>, for a track \<open>tr\<close>.\<close>

definition onTrack1 :: "string \<Rightarrow> stream_ref \<Rightarrow> player \<Rightarrow> player" where
  "onTrack1 tr m s =
    (let s1 = s\<lparr>streams := map_at m (\<lambda>ts. if tr \<in> set ts then ts else ts @ [tr]) (streams s)\<rparr>
     in if videoEl s1 then s1\<lparr>srcObject := Some m\<rparr> else s1)"

definition onTrack :: "pc_ref \<Rightarrow> string \<Rightarrow> player \<Rightarrow> player" where
  "onTrack p tr s = fold (onTrack1 tr) (pc_trackStreams (pcs s ! p)) s"

text \<open>
  \<^verbatim>\<open>_handleAnswer\<close> up to \<^verbatim>\<open>await this._peerConnection?.setRemoteDescription\<close>. Without a
  connection nothing is called and nothing can be rejected.
\<close>

definition handleAnswer :: "string \<Rightarrow> player \<Rightarrow> player" where
  "handleAnswer answer s =
    (case peerConnection s of
       None \<Rightarrow> s
     | Some p \<Rightarrow>
        (let s1 = invoke (SetRemoteDescription p answer) s
         in s1\<lparr>tasks := tasks s1 @ [AwaitRemote p]\<rparr>))"

text \<open>Resumed when \<^verbatim>\<open>setRemoteDescription\<close> settles; \<open>r\<close> is the message of its rejection.\<close>

definition handleAnswer_afterRemote :: "task_ref \<Rightarrow> string option \<Rightarrow> player \<Rightarrow> player" where
  "handleAnswer_afterRemote t r s =
    (case r of
       None \<Rightarrow> settle t s
     | Some m \<Rightarrow>
        (let s1 = s\<lparr>error := Some (''Failed to connect WebRTC stream: '' @ m)\<rparr>
         in case peerConnection s1 of
              None \<Rightarrow> settle t s1
            | Some q \<Rightarrow> settle t (close q s1)))"

definition handleOfferEvent :: "offer_event \<Rightarrow> player \<Rightarrow> player" where
  "handleOfferEvent event s =
    (case event of
       Session_id sid \<Rightarrow>
         (invokes (map (AddWebRtcCandidate (entityid s) sid) (candidatesList s))
            (s\<lparr>sessionId := Some sid\<rparr>))\<lparr>candidatesList := []\<rparr>
     | Answer a \<Rightarrow> handleAnswer a s
     | Candidate c \<Rightarrow>
         (case peerConnection s of
            None \<Rightarrow> s
          | Some p \<Rightarrow> invoke (AddIceCandidate p c) s)
     | Other_type ty \<Rightarrow> s)"

definition loadedData :: "player \<Rightarrow> player" where
  "loadedData s = invoke (FireEvent ''load'') s"

definition connectedCallback :: "player \<Rightarrow> player" where
  "connectedCallback s = (if hasUpdated s then startWebRtc s else s)"

definition disconnectedCallback :: "player \<Rightarrow> player" where
  "disconnectedCallback s = cleanUp s"

definition updated :: "string list \<Rightarrow> player \<Rightarrow> player" where
  "updated changedProperties s =
    (if ''entityid'' \<notin> set changedProperties then s else startWebRtc s)"

subsection \<open>What can happen to the component\<close>

text \<open>
  The host sets the property, the framework calls the lifecycle methods (it sets
  \<^verbatim>\<open>hasUpdated\<close> before the first call of \<^verbatim>\<open>updated\<close>), awaited promises settle, the
  platform dispatches events to the registered listeners, the signalling layer calls
  the callback given to \<^verbatim>\<open>webRtcOffer\<close> and a callback registered by a clean-up on
  a subscription promise runs. A task is resumed only at the \<^verbatim>\<open>await\<close> it
  waits at, and a connection dispatches \<^verbatim>\<open>icecandidate\<close> and \<^verbatim>\<open>track\<close> events only
  once it exists and until it is closed. A rejection or a thrown error is given by its
  \<^verbatim>\<open>message\<close>; a promise that settles carries \<open>Inl\<close> of the message or \<open>Inr\<close> of the
  value.
\<close>

datatype event =
    SetEntityid string
  | Updated "string list"
  | ConnectedCallback
  | DisconnectedCallback
  | ConfigSettled task_ref "string + client_config"
  | OfferSettled task_ref "string + string"
  | LocalSettled task_ref "string option" "string option"
  | RemoteSettled task_ref "string option"
  | IceCandidate pc_ref "string option"
  | Track pc_ref string
  | OfferEvent offer_event
  | UnsubThen sub_ref
  | LoadedData

definition dispatches :: "player \<Rightarrow> pc_ref \<Rightarrow> bool" where
  "dispatches s p = (p < length (pcs s) \<and> \<not> pc_closed (pcs s ! p))"

fun step :: "event \<Rightarrow> player \<Rightarrow> player" where
  "step (SetEntityid e) s = s\<lparr>entityid := e\<rparr>"
| "step (Updated changedProperties) s = updated changedProperties (s\<lparr>hasUpdated := True\<rparr>)"
| "step ConnectedCallback s = connectedCallback s"
| "step DisconnectedCallback s = disconnectedCallback s"
| "step (ConfigSettled t r) s =
     (case phaseOf s t of AwaitConfig \<Rightarrow> startWebRtc_afterConfig t r s | _ \<Rightarrow> s)"
| "step (OfferSettled t r) s =
     (case phaseOf s t of AwaitOffer p \<Rightarrow> startWebRtc_afterOffer t p r s | _ \<Rightarrow> s)"
| "step (LocalSettled t r w) s =
     (case phaseOf s t of AwaitLocal p sdp \<Rightarrow> startWebRtc_afterLocal t p sdp r w s | _ \<Rightarrow> s)"
| "step (RemoteSettled t r) s =
     (case phaseOf s t of AwaitRemote p \<Rightarrow> handleAnswer_afterRemote t r s | _ \<Rightarrow> s)"
| "step (IceCandidate p cand) s = (if dispatches s p then onIceCandidate p cand s else s)"
| "step (Track p tr) s = (if dispatches s p then onTrack p tr s else s)"
| "step (OfferEvent ev) s = handleOfferEvent ev s"
| "step (UnsubThen u) s = unsubThen u s"
| "step LoadedData s = loadedData s"

fun run :: "event list \<Rightarrow> player \<Rightarrow> player" where
  "run [] s = s"
| "run (e # es) s = run es (step e s)"

subsection \<open>The copy under \<^verbatim>\<open>src/components\<close>\<close>

text \<open>
  In this copy \<^verbatim>\<open>_cleanUp\<close> ends after closing the connection: it does not touch
  \<^verbatim>\<open>_unsub\<close>, \<^verbatim>\<open>_sessionId\<close> or \<^verbatim>\<open>_candidatesList\<close>.
\<close>

definition cleanUp_components :: "player \<Rightarrow> player" where
  "cleanUp_components s =
    (let s1 = (case remoteStream s of
                 Some r \<Rightarrow> (invokes (map TrackStop (tracksOf s r)) s)\<lparr>remoteStream := None\<rparr>
               | None \<Rightarrow> s);
         s2 = (if videoEl s1 then invokes [VideoRemoveSrc, VideoLoad] s1 else s1)
     in case peerConnection s2 of
          Some p \<Rightarrow> (close p s2)\<lparr>peerConnection := None\<rparr>
        | None \<Rightarrow> s2)"

text \<open>
  \<^verbatim>\<open>_startWebRtc\<close> of this copy begins with \<^verbatim>\<open>this._error = undefined\<close>, without a
  clean-up. It keeps the new connection in the local variable \<^verbatim>\<open>peerConnection\<close>
  (the \<open>p\<close> of the phase), calls every method on it, and assigns it to
  \<^verbatim>\<open>this._peerConnection\<close> just before it calls \<^verbatim>\<open>webRtcOffer\<close>.
\<close>

definition startWebRtc_components :: "player \<Rightarrow> player" where
  "startWebRtc_components s =
    (let s1 = s\<lparr>error := None\<rparr>;
         s2 = invoke (FetchWebRtcClientConfiguration (entityid s1)) s1
     in s2\<lparr>tasks := tasks s2 @ [AwaitConfig]\<rparr>)"

definition startWebRtc_components_afterConfig ::
    "task_ref \<Rightarrow> string + client_config \<Rightarrow> player \<Rightarrow> player" where
  "startWebRtc_components_afterConfig t r s =
    (case r of
       Inl err \<Rightarrow> settle t s
     | Inr clientConfig \<Rightarrow>
        (let p = length (pcs s);
             dc = (if truthy (dataChannel clientConfig)
                   then [the (dataChannel clientConfig)] else []);
             pc = \<lparr> pc_configuration = configuration clientConfig, pc_closed = False,
                    pc_dataChannels = dc,
                    pc_transceivers = [(''audio'', ''recvonly''), (''video'', ''recvonly'')],
                    pc_candidates = [], pc_trackStreams = [] \<rparr>;
             s1 = invoke (NewRTCPeerConnection p (configuration clientConfig))
                    (s\<lparr>pcs := pcs s @ [pc]\<rparr>);
             s2 = invokes (map (CreateDataChannel p) dc) s1;
             s3 = invokes [AddTransceiver p ''audio'' ''recvonly'',
                           AddTransceiver p ''video'' ''recvonly''] s2;
             s4 = s3\<lparr>candidatesList := []\<rparr>;
             s5 = invoke (ListenIceCandidate p) s4;
             s6 = invoke (CreateOffer p True True) s5
         in suspend t (AwaitOffer p) s6))"

definition startWebRtc_components_afterOffer ::
    "task_ref \<Rightarrow> pc_ref \<Rightarrow> string + string \<Rightarrow> player \<Rightarrow> player" where
  "startWebRtc_components_afterOffer t p r s =
    (case r of
       Inl err \<Rightarrow> settle t s
     | Inr sdp \<Rightarrow> suspend t (AwaitLocal p sdp) (invoke (SetLocalDescription p sdp) s))"

definition startWebRtc_components_afterLocal ::
    "task_ref \<Rightarrow> pc_ref \<Rightarrow> string \<Rightarrow> string option \<Rightarrow> string option \<Rightarrow> player \<Rightarrow> player" where
  "startWebRtc_components_afterLocal t p sdp r w s =
    (case r of
       Some err \<Rightarrow> settle t s
     | None \<Rightarrow>
        (let offer_sdp = sdp @ candidatesOf s p;
             s0 = s\<lparr>peerConnection := Some p\<rparr>;
             s1 = invoke (WebRtcOffer (entityid s0) offer_sdp) s0
         in case w of
              Some m \<Rightarrow>
                settle t (close p (s1\<lparr>error := Some (''Failed to start WebRTC stream: '' @ m)\<rparr>))
            | None \<Rightarrow>
                (let u = subscriptions s1;
                     s2 = s1\<lparr>unsub := Some u, subscriptions := Suc u\<rparr>;
                     m = length (streams s2);
                     s3 = invoke (NewMediaStream m) (s2\<lparr>streams := streams s2 @ [[]]\<rparr>)
                 in settle t ((invoke (ListenTrack p m)
                      (s3\<lparr>pcs := map_at p
                             (\<lambda>c. c\<lparr>pc_trackStreams := pc_trackStreams c @ [m]\<rparr>)
                             (pcs s3)\<rparr>))
                      \<lparr>remoteStream := Some m\<rparr>))))"

definition connectedCallback_components :: "player \<Rightarrow> player" where
  "connectedCallback_components s = (if hasUpdated s then startWebRtc_components s else s)"

definition disconnectedCallback_components :: "player \<Rightarrow> player" where
  "disconnectedCallback_components s = cleanUp_components s"

definition updated_components :: "string list \<Rightarrow> player \<Rightarrow> player" where
  "updated_components changedProperties s =
    (if ''entityid'' \<notin> set changedProperties then s else startWebRtc_components s)"

text \<open>
  What can happen to a component of this copy. It never registers a callback on a
  subscription promise, so none ever runs.
\<close>

fun step_components :: "event \<Rightarrow> player \<Rightarrow> player" where
  "step_components (SetEntityid e) s = s\<lparr>entityid := e\<rparr>"
| "step_components (Updated changedProperties) s =
     updated_components changedProperties (s\<lparr>hasUpdated := True\<rparr>)"
| "step_components ConnectedCallback s = connectedCallback_components s"
| "step_components DisconnectedCallback s = disconnectedCallback_components s"
| "step_components (ConfigSettled t r) s =
     (case phaseOf s t of
        AwaitConfig \<Rightarrow> startWebRtc_components_afterConfig t r s | _ \<Rightarrow> s)"
| "step_components (OfferSettled t r) s =
     (case phaseOf s t of
        AwaitOffer p \<Rightarrow> startWebRtc_components_afterOffer t p r s | _ \<Rightarrow> s)"
| "step_components (LocalSettled t r w) s =
     (case phaseOf s t of
        AwaitLocal p sdp \<Rightarrow> startWebRtc_components_afterLocal t p sdp r w s | _ \<Rightarrow> s)"
| "step_components (RemoteSettled t r) s =
     (case phaseOf s t of AwaitRemote p \<Rightarrow> handleAnswer_afterRemote t r s | _ \<Rightarrow> s)"
| "step_components (IceCandidate p cand) s =
     (if dispatches s p then onIceCandidate p cand s else s)"
| "step_components (Track p tr) s = (if dispatches s p then onTrack p tr s else s)"
| "step_components (OfferEvent ev) s = handleOfferEvent ev s"
| "step_components (UnsubThen u) s = unsubThen u s"
| "step_components LoadedData s = loadedData s"

fun run_components :: "event list \<Rightarrow> player \<Rightarrow> player" where
  "run_components [] s = s"
| "run_components (e # es) s = run_components es (step_components e s)"

subsection \<open>Notions used to state the properties\<close>

text \<open>The calls that start or restart the negotiation, and the candidate submissions.\<close>

fun is_fetch_or_offer :: "call \<Rightarrow> bool" where
  "is_fetch_or_offer (FetchWebRtcClientConfiguration e) = True"
| "is_fetch_or_offer (WebRtcOffer e sdp) = True"
| "is_fetch_or_offer c = False"

fun is_submission :: "call \<Rightarrow> bool" where
  "is_submission (AddWebRtcCandidate e sid c) = True"
| "is_submission c = False"




definition load_events :: "player \<Rightarrow> nat" where
  "load_events s = length (filter (\<lambda>c. c = FireEvent ''load'') (calls s))"

text \<open>
  A connection that only receives: its transceivers are one for audio and one for video,
  both \<^verbatim>\<open>recvonly\<close>. A call that keeps a connection so: a transceiver is added as
  \<^verbatim>\<open>recvonly\<close>, an offer is created with both \<^verbatim>\<open>offerToReceive\<close> options set.
\<close>

definition receive_only :: "peer_connection \<Rightarrow> bool" where
  "receive_only c = (pc_transceivers c = [(''audio'', ''recvonly''), (''video'', ''recvonly'')])"

fun receiving_call :: "call \<Rightarrow> bool" where
  "receiving_call (AddTransceiver p kind direction) = (direction = ''recvonly'')"
| "receiving_call (CreateOffer p offerToReceiveAudio offerToReceiveVideo) =
     (offerToReceiveAudio \<and> offerToReceiveVideo)"
| "receiving_call c = True"

text \<open>The line a locally gathered candidate contributes to the offer.\<close>

definition candidate_line :: "string \<Rightarrow> string" where
  "candidate_line c = ''a='' @ c @ crlf"

definition receiving :: "player \<Rightarrow> bool" where
  "receiving s = (list_all receive_only (pcs s) \<and> list_all receiving_call (calls s))"

text \<open>
  Any call of the negotiation: a configuration fetch, a signalling offer or a candidate
  submission. A quiet component has no invocation of \<^verbatim>\<open>_startWebRtc\<close> in flight, no
  candidate buffered and no connection open.
\<close>

definition is_negotiation :: "call \<Rightarrow> bool" where
  "is_negotiation c = (is_fetch_or_offer c \<or> is_submission c)"


subsection \<open>Example runs\<close>

text \<open>
  One attempt for the entity \<^verbatim>\<open>camera.front\<close>: up to the call of
  \<^verbatim>\<open>setLocalDescription\<close>; up to the subscription; then an answer that arrives after
  the session identifier, and one that arrives before it while a candidate is buffered.
\<close>

definition plain_config :: client_config where
  "plain_config = \<lparr> configuration = ''{}'', dataChannel = None \<rparr>"

definition offer_installed :: "event list" where
  "offer_installed = [SetEntityid ''camera.front'', Updated [''entityid''],
     ConfigSettled 0 (Inr plain_config), OfferSettled 0 (Inr ''v=0'')]"

definition subscribed :: "event list" where
  "subscribed = offer_installed @ [LocalSettled 0 None None]"

definition answered :: "event list" where
  "answered = subscribed @ [OfferEvent (Session_id ''s1''),
     IceCandidate 0 (Some ''candidate:1''), OfferEvent (Answer ''v=1'')]"

definition answered_early :: "event list" where
  "answered_early = subscribed @ [IceCandidate 0 (Some ''candidate:1''),
     OfferEvent (Answer ''v=1'')]"

text \<open>
  Two attempts that overlap: the entity is changed again before the first fetch has
  answered. In the first run both configurations arrive, then the first invocation goes
  on and its call of \<^verbatim>\<open>webRtcOffer\<close> throws. In the second run the first invocation
  subscribes and gets its answer, the configuration of the second invocation arrives,
  and then \<^verbatim>\<open>setRemoteDescription\<close> rejects.
\<close>

definition overlapping_offer_failure :: "event list" where
  "overlapping_offer_failure = [SetEntityid ''camera.front'', Updated [''entityid''],
     SetEntityid ''camera.back'', Updated [''entityid''],
     ConfigSettled 0 (Inr plain_config), ConfigSettled 1 (Inr plain_config),
     OfferSettled 0 (Inr ''v=0''), LocalSettled 0 None (Some ''no route'')]"

definition overlapping_answer_failure :: "event list" where
  "overlapping_answer_failure = [SetEntityid ''camera.front'', Updated [''entityid''],
     SetEntityid ''camera.back'', Updated [''entityid''],
     ConfigSettled 0 (Inr plain_config), OfferSettled 0 (Inr ''v=0''),
     LocalSettled 0 None None, OfferEvent (Answer ''v=1''),
     ConfigSettled 1 (Inr plain_config), RemoteSettled 2 (Some ''bad sdp'')]"

text \<open>
  An attempt that has received its session identifier, and the next attempt, for the
  entity \<^verbatim>\<open>camera.back\<close>, during which one candidate is gathered before the offer is
  sent.
\<close>

definition in_session :: "event list" where
  "in_session = subscribed @ [OfferEvent (Session_id ''s1'')]"

definition next_attempt :: "event list" where
  "next_attempt = [SetEntityid ''camera.back'', Updated [''entityid''],
     ConfigSettled 1 (Inr plain_config), OfferSettled 1 (Inr ''v=2''),
     IceCandidate 1 (Some ''candidate:2''), LocalSettled 1 None None]"

lemmas components_defs =
  cleanUp_components_def startWebRtc_components_def startWebRtc_components_afterConfig_def
  startWebRtc_components_afterOffer_def startWebRtc_components_afterLocal_def
  connectedCallback_components_def disconnectedCallback_components_def
  updated_components_def

lemmas method_defs =
  cleanUp_def startWebRtc_def startWebRtc_afterConfig_def startWebRtc_afterOffer_def
  startWebRtc_afterLocal_def onIceCandidate_def onTrack_def onTrack1_def handleAnswer_def
  handleAnswer_afterRemote_def handleOfferEvent_def loadedData_def connectedCallback_def
  disconnectedCallback_def updated_def unsubThen_def

lemmas helper_defs =
  invoke_def invokes_def map_at_def tracksOf_def candidatesOf_def phaseOf_def settle_def
  suspend_def close_def dispatches_def Let_def

section \<open>Properties\<close>

subsection \<open>Basic facts\<close>

lemma run_append: "run (xs @ ys) s = run ys (run xs s)"
  by (induction xs arbitrary: s) simp_all

lemma run_components_append:
  "run_components (xs @ ys) s = run_components ys (run_components xs s)"
  by (induction xs arbitrary: s) simp_all

lemma cleanUp_calls:
  "calls (cleanUp s) = calls s
     @ (case remoteStream s of Some r \<Rightarrow> map TrackStop (tracksOf s r) | None \<Rightarrow> [])
     @ (if videoEl s then [VideoRemoveSrc, VideoLoad] else [])
     @ (case peerConnection s of Some p \<Rightarrow> [Close p] | None \<Rightarrow> [])"
  by (simp add: cleanUp_def helper_defs split: option.splits)

lemma cleanUp_unsubscribing:
  "unsubscribing (cleanUp s)
     = unsubscribing s @ (case unsub s of Some u \<Rightarrow> [u] | None \<Rightarrow> [])"
  by (simp add: cleanUp_def helper_defs split: option.splits)

lemma cleanUp_pcs:
  "pcs (cleanUp s) = (case peerConnection s of
      Some p \<Rightarrow> map_at p (\<lambda>c. c\<lparr>pc_closed := True\<rparr>) (pcs s) | None \<Rightarrow> pcs s)"
  by (simp add: cleanUp_def invoke_def invokes_def close_def Let_def split: option.splits)

lemma cleanUp_same [simp]:
  "entityid (cleanUp s) = entityid s" "hasUpdated (cleanUp s) = hasUpdated s"
  "error (cleanUp s) = error s" "videoEl (cleanUp s) = videoEl s"
  "srcObject (cleanUp s) = srcObject s" "streams (cleanUp s) = streams s"
  "subscriptions (cleanUp s) = subscriptions s" "tasks (cleanUp s) = tasks s"
  by (simp_all add: cleanUp_def invoke_def invokes_def close_def Let_def split: option.splits)

lemma cleanUp_cleared [simp]:
  "peerConnection (cleanUp s) = None" "remoteStream (cleanUp s) = None"
  "sessionId (cleanUp s) = None" "candidatesList (cleanUp s) = []" "unsub (cleanUp s) = None"
  by (simp_all add: cleanUp_def invoke_def invokes_def close_def Let_def split: option.splits)

lemma length_pcs_cleanUp [simp]: "length (pcs (cleanUp s)) = length (pcs s)"
  by (simp add: cleanUp_pcs map_at_def split: option.splits)

lemma cleanUp_hasUpdated [simp]:
  "cleanUp (s\<lparr>hasUpdated := b\<rparr>) = (cleanUp s)\<lparr>hasUpdated := b\<rparr>"
  by (simp add: cleanUp_def helper_defs split: option.splits)

lemma startWebRtc_calls:
  "calls (startWebRtc s) = calls (cleanUp s) @ [FetchWebRtcClientConfiguration (entityid s)]"
  by (simp add: startWebRtc_def invoke_def Let_def)

lemma startWebRtc_pcs: "pcs (startWebRtc s) = pcs (cleanUp s)"
  by (simp add: startWebRtc_def invoke_def Let_def)

lemma onTrack_same [simp]:
  "calls (fold (onTrack1 tr) ms s) = calls s"
  "pcs (fold (onTrack1 tr) ms s) = pcs s"
  "tasks (fold (onTrack1 tr) ms s) = tasks s"
  "candidatesList (fold (onTrack1 tr) ms s) = candidatesList s"
  by (induction ms arbitrary: s) (simp_all add: onTrack1_def Let_def)

lemma list_all_map_at:
  assumes "\<And>x. P x \<Longrightarrow> P (f x)" and "list_all P xs"
  shows "list_all P (map_at i f xs)"
proof (cases "i < length xs")
  case True
  have "list_all P (xs[i := f (xs ! i)])"
    using True assms by (auto simp: list_all_length nth_list_update)
  with True show ?thesis by (simp add: map_at_def)
next
  case False
  with assms show ?thesis by (simp add: map_at_def)
qed

subsection \<open>The example runs, evaluated\<close>

lemma run_offer_installed:
  "run offer_installed (init True) =
    \<lparr> entityid = ''camera.front'', hasUpdated = True, error = None, videoEl = True,
      srcObject = None, peerConnection = Some 0, remoteStream = None, unsub = None,
      sessionId = None, candidatesList = [],
      pcs = [\<lparr> pc_configuration = ''{}'', pc_closed = False, pc_dataChannels = [],
               pc_transceivers = [(''audio'', ''recvonly''), (''video'', ''recvonly'')],
               pc_candidates = [], pc_trackStreams = [] \<rparr>],
      streams = [], subscriptions = 0, unsubscribing = [], tasks = [AwaitLocal 0 ''v=0''],
      calls = [VideoRemoveSrc, VideoLoad, FetchWebRtcClientConfiguration ''camera.front'',
               NewRTCPeerConnection 0 ''{}'', AddTransceiver 0 ''audio'' ''recvonly'',
               AddTransceiver 0 ''video'' ''recvonly'', ListenIceCandidate 0,
               CreateOffer 0 True True, SetLocalDescription 0 ''v=0''] \<rparr>"
  by (simp add: init_def plain_config_def offer_installed_def method_defs helper_defs)

lemma run_subscribed:
  "run subscribed (init True) =
    \<lparr> entityid = ''camera.front'', hasUpdated = True, error = None, videoEl = True,
      srcObject = None, peerConnection = Some 0, remoteStream = Some 0, unsub = Some 0,
      sessionId = None, candidatesList = [],
      pcs = [\<lparr> pc_configuration = ''{}'', pc_closed = False, pc_dataChannels = [],
               pc_transceivers = [(''audio'', ''recvonly''), (''video'', ''recvonly'')],
               pc_candidates = [], pc_trackStreams = [0] \<rparr>],
      streams = [[]], subscriptions = 1, unsubscribing = [], tasks = [Settled],
      calls = [VideoRemoveSrc, VideoLoad, FetchWebRtcClientConfiguration ''camera.front'',
               NewRTCPeerConnection 0 ''{}'', AddTransceiver 0 ''audio'' ''recvonly'',
               AddTransceiver 0 ''video'' ''recvonly'', ListenIceCandidate 0,
               CreateOffer 0 True True, SetLocalDescription 0 ''v=0'',
               WebRtcOffer ''camera.front'' ''v=0'', NewMediaStream 0, ListenTrack 0 0] \<rparr>"
  by (simp add: subscribed_def run_append run_offer_installed startWebRtc_afterLocal_def
      helper_defs)

lemma run_answered:
  "run answered (init True) =
    \<lparr> entityid = ''camera.front'', hasUpdated = True, error = None, videoEl = True,
      srcObject = None, peerConnection = Some 0, remoteStream = Some 0, unsub = Some 0,
      sessionId = Some ''s1'', candidatesList = [],
      pcs = [\<lparr> pc_configuration = ''{}'', pc_closed = False, pc_dataChannels = [],
               pc_transceivers = [(''audio'', ''recvonly''), (''video'', ''recvonly'')],
               pc_candidates = [], pc_trackStreams = [0] \<rparr>],
      streams = [[]], subscriptions = 1, unsubscribing = [], tasks = [Settled, AwaitRemote 0],
      calls = [VideoRemoveSrc, VideoLoad, FetchWebRtcClientConfiguration ''camera.front'',
               NewRTCPeerConnection 0 ''{}'', AddTransceiver 0 ''audio'' ''recvonly'',
               AddTransceiver 0 ''video'' ''recvonly'', ListenIceCandidate 0,
               CreateOffer 0 True True, SetLocalDescription 0 ''v=0'',
               WebRtcOffer ''camera.front'' ''v=0'', NewMediaStream 0, ListenTrack 0 0,
               AddWebRtcCandidate ''camera.front'' ''s1'' ''candidate:1'',
               SetRemoteDescription 0 ''v=1''] \<rparr>"
  by (simp add: answered_def run_append run_subscribed handleOfferEvent_def handleAnswer_def
      onIceCandidate_def helper_defs)

lemma run_answered_early:
  "run answered_early (init True) =
    \<lparr> entityid = ''camera.front'', hasUpdated = True, error = None, videoEl = True,
      srcObject = None, peerConnection = Some 0, remoteStream = Some 0, unsub = Some 0,
      sessionId = None, candidatesList = [''candidate:1''],
      pcs = [\<lparr> pc_configuration = ''{}'', pc_closed = False, pc_dataChannels = [],
               pc_transceivers = [(''audio'', ''recvonly''), (''video'', ''recvonly'')],
               pc_candidates = [], pc_trackStreams = [0] \<rparr>],
      streams = [[]], subscriptions = 1, unsubscribing = [], tasks = [Settled, AwaitRemote 0],
      calls = [VideoRemoveSrc, VideoLoad, FetchWebRtcClientConfiguration ''camera.front'',
               NewRTCPeerConnection 0 ''{}'', AddTransceiver 0 ''audio'' ''recvonly'',
               AddTransceiver 0 ''video'' ''recvonly'', ListenIceCandidate 0,
               CreateOffer 0 True True, SetLocalDescription 0 ''v=0'',
               WebRtcOffer ''camera.front'' ''v=0'', NewMediaStream 0, ListenTrack 0 0,
               SetRemoteDescription 0 ''v=1''] \<rparr>"
  by (simp add: answered_early_def run_append run_subscribed handleOfferEvent_def
      handleAnswer_def onIceCandidate_def helper_defs)

lemmas example_runs = run_offer_installed run_subscribed run_answered run_answered_early

lemma run_in_session:
  "run in_session (init True) = (run subscribed (init True))\<lparr>sessionId := Some ''s1''\<rparr>"
  by (simp add: in_session_def run_append run_subscribed handleOfferEvent_def invokes_def)

text \<open>The first attempt in the copy under \<^verbatim>\<open>src/components\<close>, session identifier received.\<close>

lemma run_components_in_session:
  "run_components in_session (init True) =
    \<lparr> entityid = ''camera.front'', hasUpdated = True, error = None, videoEl = True,
      srcObject = None, peerConnection = Some 0, remoteStream = Some 0, unsub = Some 0,
      sessionId = Some ''s1'', candidatesList = [],
      pcs = [\<lparr> pc_configuration = ''{}'', pc_closed = False, pc_dataChannels = [],
               pc_transceivers = [(''audio'', ''recvonly''), (''video'', ''recvonly'')],
               pc_candidates = [], pc_trackStreams = [0] \<rparr>],
      streams = [[]], subscriptions = 1, unsubscribing = [], tasks = [Settled],
      calls = [FetchWebRtcClientConfiguration ''camera.front'',
               NewRTCPeerConnection 0 ''{}'', AddTransceiver 0 ''audio'' ''recvonly'',
               AddTransceiver 0 ''video'' ''recvonly'', ListenIceCandidate 0,
               CreateOffer 0 True True, SetLocalDescription 0 ''v=0'',
               WebRtcOffer ''camera.front'' ''v=0'', NewMediaStream 0, ListenTrack 0 0] \<rparr>"
  by (simp add: in_session_def subscribed_def offer_installed_def plain_config_def init_def
      components_defs handleOfferEvent_def helper_defs)

subsection \<open>A rejected configuration fetch\<close>

lemma config_rejection_changes_nothing:
  "error (step (ConfigSettled t (Inl e)) s) = error s \<and>
   calls (step (ConfigSettled t (Inl e)) s) = calls s \<and>
   pcs (step (ConfigSettled t (Inl e)) s) = pcs s \<and>
   render (step (ConfigSettled t (Inl e)) s) = render s"
  by (simp add: render_def startWebRtc_afterConfig_def settle_def split: phase.splits)

text \<open>
  C1 says that a rejected \<^verbatim>\<open>fetchWebRtcClientConfiguration\<close> shows the error banner
  in place of the video. The code does not: the entity is set, the first update starts
  an attempt, the fetch is rejected with the message \<^verbatim>\<open>timeout\<close>. Afterwards
  \<^verbatim>\<open>_error\<close> is still \<^verbatim>\<open>undefined\<close>, \<^verbatim>\<open>render\<close> still gives the video element, the
  invocation has ended, and the only calls made are those of the clean-up and the fetch.
\<close>

theorem config_rejection_is_not_surfaced:
  "error (run [SetEntityid ''camera.front'', Updated [''entityid''],
               ConfigSettled 0 (Inl ''timeout'')] (init True)) = None \<and>
   render (run [SetEntityid ''camera.front'', Updated [''entityid''],
               ConfigSettled 0 (Inl ''timeout'')] (init True)) = Video \<and>
   calls (run [SetEntityid ''camera.front'', Updated [''entityid''],
               ConfigSettled 0 (Inl ''timeout'')] (init True))
     = [VideoRemoveSrc, VideoLoad, FetchWebRtcClientConfiguration ''camera.front''] \<and>
   tasks (run [SetEntityid ''camera.front'', Updated [''entityid''],
               ConfigSettled 0 (Inl ''timeout'')] (init True)) = [Settled]"
  by (simp add: init_def render_def method_defs helper_defs)

subsection \<open>The failures that are caught\<close>

text \<open>
  When \<^verbatim>\<open>webRtcOffer\<close> throws (the invocation \<open>t\<close> of \<^verbatim>\<open>_startWebRtc\<close> waits for
  \<^verbatim>\<open>setLocalDescription\<close>, which resolves, and the call of \<^verbatim>\<open>webRtcOffer\<close> throws an
  error with message \<open>m\<close>), and when \<^verbatim>\<open>setRemoteDescription\<close> rejects with message \<open>m\<close>
  (the invocation \<open>t\<close> of \<^verbatim>\<open>_handleAnswer\<close> waits for it), \<^verbatim>\<open>_error\<close> is set to the
  prefixed message and \<^verbatim>\<open>render\<close> gives the alert with that message instead of the
  video. The connection that is closed is the one held in \<^verbatim>\<open>this._peerConnection\<close> at
  that moment, if there is one: it is no longer live and the close is the last call.
\<close>

lemma caught_failures_close_the_held_connection:
  "(phaseOf s t = AwaitLocal p sdp \<longrightarrow>
      error (step (LocalSettled t None (Some m)) s)
        = Some (''Failed to start WebRTC stream: '' @ m) \<and>
      render (step (LocalSettled t None (Some m)) s)
        = Alert (''Failed to start WebRTC stream: '' @ m) \<and>
      (\<forall>q. peerConnection s = Some q \<and> q < length (pcs s) \<longrightarrow>
         pc_closed (pcs (step (LocalSettled t None (Some m)) s) ! q) \<and>
         q \<notin> set (live (step (LocalSettled t None (Some m)) s)) \<and>
         last (calls (step (LocalSettled t None (Some m)) s)) = Close q)) \<and>
   (phaseOf s t = AwaitRemote p \<longrightarrow>
      error (step (RemoteSettled t (Some m)) s)
        = Some (''Failed to connect WebRTC stream: '' @ m) \<and>
      render (step (RemoteSettled t (Some m)) s)
        = Alert (''Failed to connect WebRTC stream: '' @ m) \<and>
      (\<forall>q. peerConnection s = Some q \<and> q < length (pcs s) \<longrightarrow>
         pc_closed (pcs (step (RemoteSettled t (Some m)) s) ! q) \<and>
         q \<notin> set (live (step (RemoteSettled t (Some m)) s)) \<and>
         last (calls (step (RemoteSettled t (Some m)) s)) = Close q))"
  by (auto simp add: startWebRtc_afterLocal_def handleAnswer_afterRemote_def render_def live_def
      invoke_def settle_def close_def map_at_def Let_def split: option.splits)

text \<open>
  C2 says that on such a failure the error is shown and the connection that failed is
  closed. The error is shown, but the connection closed need not be the one that
  failed. Two attempts overlap, as in C4. In the first run invocation 0 has created
  connection 0 and waits for \<^verbatim>\<open>setLocalDescription\<close>; its call of \<^verbatim>\<open>webRtcOffer\<close>
  throws while the component holds connection 1 of the other invocation: connection 1 is
  closed and connection 0 stays open. In the second run \<^verbatim>\<open>setRemoteDescription\<close> was
  called on connection 0 and rejects after connection 1 has replaced it: again
  connection 1 is closed and connection 0 stays open.
\<close>

theorem caught_failure_closes_another_connection:
  "phaseOf (run (butlast overlapping_offer_failure) (init True)) 0 = AwaitLocal 0 ''v=0'' \<and>
   error (run overlapping_offer_failure (init True))
     = Some ''Failed to start WebRTC stream: no route'' \<and>
   map pc_closed (pcs (run overlapping_offer_failure (init True))) = [False, True] \<and>
   live (run overlapping_offer_failure (init True)) = [0] \<and>
   last (calls (run overlapping_offer_failure (init True))) = Close 1 \<and>
   phaseOf (run (butlast overlapping_answer_failure) (init True)) 2 = AwaitRemote 0 \<and>
   error (run overlapping_answer_failure (init True))
     = Some ''Failed to connect WebRTC stream: bad sdp'' \<and>
   map pc_closed (pcs (run overlapping_answer_failure (init True))) = [False, True] \<and>
   live (run overlapping_answer_failure (init True)) = [0] \<and>
   last (calls (run overlapping_answer_failure (init True))) = Close 1"
  by (simp add: overlapping_offer_failure_def overlapping_answer_failure_def plain_config_def
      init_def live_def method_defs helper_defs)

subsection \<open>After a failure\<close>

lemma closed_map_at [simp]:
  "list_all pc_closed xs \<Longrightarrow> list_all pc_closed (map_at i (\<lambda>c. c\<lparr>pc_closed := True\<rparr>) xs)"
  by (rule list_all_map_at) simp_all












subsection \<open>Overlapping attempts\<close>

text \<open>
  What an attempt does hold when the next one starts is released before the fetch: the
  held connection is closed, and the calls made are the stops of the held stream's
  tracks, the reset of the video element, the close and only then the fetch. The
  unsubscription is only registered on the subscription promise; it is called when the
  callback runs.
\<close>

lemma startWebRtc_releases_held:
  "calls (startWebRtc s) = calls s
     @ (case remoteStream s of Some r \<Rightarrow> map TrackStop (tracksOf s r) | None \<Rightarrow> [])
     @ (if videoEl s then [VideoRemoveSrc, VideoLoad] else [])
     @ (case peerConnection s of Some p \<Rightarrow> [Close p] | None \<Rightarrow> [])
     @ [FetchWebRtcClientConfiguration (entityid s)]"
  "peerConnection s = Some p \<Longrightarrow> p < length (pcs s) \<Longrightarrow> pc_closed (pcs (startWebRtc s) ! p)"
  "unsub s = Some u \<Longrightarrow> u \<in> set (unsubscribing (startWebRtc s))"
  "u \<in> set (unsubscribing s') \<Longrightarrow> calls (step (UnsubThen u) s') = calls s' @ [Unsubscribe u]"
  by (simp_all add: startWebRtc_calls startWebRtc_pcs cleanUp_calls cleanUp_pcs map_at_def
      startWebRtc_def cleanUp_unsubscribing unsubThen_def invoke_def Let_def)

text \<open>
  C4 says that at most one peer connection is live at any time. The code does release
  what the component holds when an attempt starts (\<open>startWebRtc_releases_held\<close>), but
  an attempt that is still waiting for its configuration holds nothing yet. The entity
  is changed twice before the first fetch has answered; both fetches then answer. Each
  invocation creates a connection, the second overwrites \<^verbatim>\<open>this._peerConnection\<close>, and
  connections 0 and 1 are both open.
\<close>

theorem overlapping_attempts_leave_two_connections_open:
  "live (run [SetEntityid ''camera.front'', Updated [''entityid''],
              SetEntityid ''camera.back'', Updated [''entityid''],
              ConfigSettled 0 (Inr \<lparr>configuration = ''{}'', dataChannel = None\<rparr>),
              ConfigSettled 1 (Inr \<lparr>configuration = ''{}'', dataChannel = None\<rparr>)]
             (init True)) = [0, 1]"
  by (simp add: init_def live_def method_defs helper_defs)

subsection \<open>What a clean-up discards\<close>

text \<open>
  In the copy of \<^verbatim>\<open>src/unnamed/part_000\<close>, after \<^verbatim>\<open>_cleanUp\<close> every session handle is
  discarded: the connection object and the remote media handle are \<^verbatim>\<open>undefined\<close>, the
  session identifier is cleared, the pending-candidate list is empty and the
  unsubscribe handle is cleared. The clean-up is what \<^verbatim>\<open>disconnectedCallback\<close> does, and
  \<^verbatim>\<open>_startWebRtc\<close> begins with it: the handles are still cleared when it reaches its
  first \<^verbatim>\<open>await\<close>.
\<close>

lemma cleanUp_discards_session_handles:
  "peerConnection (cleanUp s) = None \<and> remoteStream (cleanUp s) = None \<and>
   sessionId (cleanUp s) = None \<and> candidatesList (cleanUp s) = [] \<and> unsub (cleanUp s) = None \<and>
   step DisconnectedCallback s = cleanUp s \<and>
   peerConnection (startWebRtc s) = None \<and> remoteStream (startWebRtc s) = None \<and>
   sessionId (startWebRtc s) = None \<and> candidatesList (startWebRtc s) = [] \<and>
   unsub (startWebRtc s) = None"
  by (simp add: cleanUp_def startWebRtc_def disconnectedCallback_def invoke_def invokes_def
      close_def Let_def split: option.splits)

text \<open>
  The \<^verbatim>\<open>_cleanUp\<close> of the copy under \<^verbatim>\<open>src/components\<close> leaves the session
  identifier, the pending candidates and the unsubscribe handle as they are, in every
  state, and its \<^verbatim>\<open>_startWebRtc\<close> releases nothing before it fetches the configuration.
\<close>

lemma cleanUp_components_keeps:
  "sessionId (cleanUp_components s) = sessionId s \<and>
   candidatesList (cleanUp_components s) = candidatesList s \<and>
   unsub (cleanUp_components s) = unsub s"
  by (simp add: cleanUp_components_def invoke_def invokes_def close_def Let_def
      split: option.splits)

lemma startWebRtc_components_releases_nothing:
  "pcs (startWebRtc_components s) = pcs s \<and>
   peerConnection (startWebRtc_components s) = peerConnection s \<and>
   calls (startWebRtc_components s) = calls s @ [FetchWebRtcClientConfiguration (entityid s)]"
  by (simp add: startWebRtc_components_def invoke_def Let_def)

text \<open>
  C5 says that after the clean-up every session handle is discarded. In the copy under
  \<^verbatim>\<open>src/components\<close> three of the five are not. An attempt subscribes and receives the
  session identifier \<^verbatim>\<open>s1\<close>, then the element is disconnected: the connection and the
  remote stream are cleared, but the session identifier and the unsubscribe handle are
  still there, and no unsubscription has been registered. Likewise a candidate that was
  buffered before the disconnection is still in the pending list.
\<close>

theorem cleanUp_components_keeps_session_handles:
  "sessionId (run_components (in_session @ [DisconnectedCallback]) (init True)) = Some ''s1'' \<and>
   unsub (run_components (in_session @ [DisconnectedCallback]) (init True)) = Some 0 \<and>
   unsubscribing (run_components (in_session @ [DisconnectedCallback]) (init True)) = [] \<and>
   peerConnection (run_components (in_session @ [DisconnectedCallback]) (init True)) = None \<and>
   remoteStream (run_components (in_session @ [DisconnectedCallback]) (init True)) = None \<and>
   candidatesList (run_components
      (subscribed @ [IceCandidate 0 (Some ''candidate:1''), DisconnectedCallback]) (init True))
     = [''candidate:1'']"
  by (simp add: run_components_append run_components_in_session in_session_def subscribed_def
      offer_installed_def plain_config_def init_def components_defs onIceCandidate_def
      handleOfferEvent_def helper_defs)

subsection \<open>The load event\<close>

lemma load_events_cleanUp: "load_events (cleanUp s) = load_events s"
  by (simp add: load_events_def cleanUp_calls o_def split: option.splits)

lemma load_events_startWebRtc: "load_events (startWebRtc s) = load_events s"
  using load_events_cleanUp [of s] by (simp add: load_events_def startWebRtc_calls)

lemma load_events_hasUpdated: "load_events (s\<lparr>hasUpdated := b\<rparr>) = load_events s"
  by (simp add: load_events_def)

lemma load_events_step:
  "load_events (step e s) = load_events s + (if e = LoadedData then 1 else 0)"
proof (cases e)
  case (Updated cp)
  then show ?thesis
    by (simp add: updated_def load_events_startWebRtc load_events_hasUpdated)
next
  case ConnectedCallback
  then show ?thesis by (simp add: connectedCallback_def load_events_startWebRtc)
next
  case DisconnectedCallback
  then show ?thesis by (simp add: disconnectedCallback_def load_events_cleanUp)
next
  case (ConfigSettled t r)
  then show ?thesis
    by (simp add: load_events_def startWebRtc_afterConfig_def helper_defs o_def
        split: phase.splits sum.splits)
next
  case (OfferSettled t r)
  then show ?thesis
    by (simp add: load_events_def startWebRtc_afterOffer_def helper_defs
        split: phase.splits sum.splits option.splits)
next
  case (LocalSettled t r w)
  then show ?thesis
    by (simp add: load_events_def startWebRtc_afterLocal_def helper_defs
        split: phase.splits option.splits)
next
  case (RemoteSettled t r)
  then show ?thesis
    by (simp add: load_events_def handleAnswer_afterRemote_def helper_defs
        split: phase.splits option.splits)
next
  case (IceCandidate p c)
  then show ?thesis
    by (simp add: load_events_def onIceCandidate_def invoke_def)
next
  case (Track p tr)
  then show ?thesis by (simp add: load_events_def onTrack_def)
next
  case (OfferEvent ev)
  then show ?thesis
    by (cases ev)
      (simp_all add: load_events_def handleOfferEvent_def handleAnswer_def helper_defs o_def
        split: option.splits)
next
  case (UnsubThen u)
  then show ?thesis by (simp add: load_events_def unsubThen_def invoke_def)
next
  case LoadedData
  then show ?thesis by (simp add: load_events_def loadedData_def invoke_def)
qed (simp add: load_events_def)

text \<open>
  C6. Each \<^verbatim>\<open>loadeddata\<close> event of the video element makes the component fire exactly
  one \<^verbatim>\<open>load\<close> event, and nothing else makes it fire one: over any sequence of
  events, from any state, the number of \<^verbatim>\<open>load\<close> events fired grows by the number of
  \<^verbatim>\<open>loadeddata\<close> events in the sequence.
\<close>

theorem load_event_exactly_on_loadeddata:
  "load_events (run es s) = load_events s + length (filter (\<lambda>e. e = LoadedData) es)"
  by (induction es arbitrary: s) (simp_all add: load_events_step)

subsection \<open>Receive-only\<close>

lemma receive_only_map_at [simp]:
  assumes "\<And>c. pc_transceivers (f c) = pc_transceivers c"
  shows "list_all receive_only (map_at i f xs) = list_all receive_only xs"
proof (cases "i < length xs")
  case True
  have "list_all receive_only (xs[i := f (xs ! i)]) = list_all receive_only xs"
    using True assms by (auto simp: list_all_length nth_list_update receive_only_def)
  with True show ?thesis by (simp add: map_at_def)
next
  case False
  then show ?thesis by (simp add: map_at_def)
qed

lemma receiving_cleanUp: "receiving s \<Longrightarrow> receiving (cleanUp s)"
  by (simp add: receiving_def cleanUp_calls cleanUp_pcs list.pred_map o_def list.pred_True
      split: option.splits)

lemma receiving_startWebRtc: "receiving s \<Longrightarrow> receiving (startWebRtc s)"
  using receiving_cleanUp [of s] by (simp add: receiving_def startWebRtc_calls startWebRtc_pcs)

lemma receiving_step: "receiving s \<Longrightarrow> receiving (step e s)"
proof (cases e)
  case (Updated cp)
  assume "receiving s"
  then have "receiving (s\<lparr>hasUpdated := True\<rparr>)" by (simp add: receiving_def)
  with Updated show ?thesis by (simp add: updated_def receiving_startWebRtc)
next
  case ConnectedCallback
  assume "receiving s"
  with ConnectedCallback show ?thesis by (simp add: connectedCallback_def receiving_startWebRtc)
next
  case DisconnectedCallback
  assume "receiving s"
  with DisconnectedCallback show ?thesis by (simp add: disconnectedCallback_def receiving_cleanUp)
next
  case (ConfigSettled t r)
  assume "receiving s"
  with ConfigSettled show ?thesis
    by (simp add: receiving_def receive_only_def startWebRtc_afterConfig_def invoke_def
        invokes_def settle_def suspend_def Let_def split: phase.splits sum.splits)
next
  case (OfferSettled t r)
  assume "receiving s"
  with OfferSettled show ?thesis
    by (simp add: receiving_def startWebRtc_afterOffer_def invoke_def settle_def suspend_def
        split: phase.splits sum.splits option.splits)
next
  case (LocalSettled t r w)
  assume "receiving s"
  with LocalSettled show ?thesis
    by (simp add: receiving_def startWebRtc_afterLocal_def invoke_def
        settle_def close_def Let_def split: phase.splits option.splits)
next
  case (RemoteSettled t r)
  assume "receiving s"
  with RemoteSettled show ?thesis
    by (simp add: receiving_def handleAnswer_afterRemote_def invoke_def
        settle_def close_def Let_def split: phase.splits option.splits)
next
  case (IceCandidate p c)
  assume "receiving s"
  with IceCandidate show ?thesis
    by (simp add: receiving_def onIceCandidate_def invoke_def)
next
  case (Track p tr)
  assume "receiving s"
  with Track show ?thesis by (simp add: receiving_def onTrack_def)
next
  case (OfferEvent ev)
  assume "receiving s"
  with OfferEvent show ?thesis
    by (cases ev)
      (simp_all add: receiving_def handleOfferEvent_def handleAnswer_def invoke_def invokes_def
        Let_def list.pred_map o_def list.pred_True split: option.splits)
next
  case (UnsubThen u)
  assume "receiving s"
  with UnsubThen show ?thesis by (simp add: receiving_def unsubThen_def invoke_def)
next
  case LoadedData
  assume "receiving s"
  with LoadedData show ?thesis by (simp add: receiving_def loadedData_def invoke_def)
next
  case (SetEntityid x)
  assume "receiving s"
  with SetEntityid show ?thesis by (simp add: receiving_def)
qed

lemma receiving_run: "receiving s \<Longrightarrow> receiving (run es s)"
  by (induction es arbitrary: s) (simp_all add: receiving_step)

text \<open>
  C7. Every attempt sets its transport up to receive only. The connection an attempt
  creates (when its configuration arrives) has exactly two transceivers, one for audio
  and one for video, both \<^verbatim>\<open>recvonly\<close>, and the attempt then creates the offer with
  \<^verbatim>\<open>offerToReceiveAudio\<close> and \<^verbatim>\<open>offerToReceiveVideo\<close> set. Whatever happens to the
  component afterwards, every connection it has created keeps exactly these two
  transceivers, and every transceiver it adds and every offer it creates is for
  receiving: nothing is ever attached for sending.
\<close>

theorem every_connection_is_receive_only:
  "pcs (startWebRtc_afterConfig t (Inr cfg) s)
     = pcs s @ [last (pcs (startWebRtc_afterConfig t (Inr cfg) s))] \<and>
   peerConnection (startWebRtc_afterConfig t (Inr cfg) s) = Some (length (pcs s)) \<and>
   pc_transceivers (last (pcs (startWebRtc_afterConfig t (Inr cfg) s)))
     = [(''audio'', ''recvonly''), (''video'', ''recvonly'')] \<and>
   last (calls (startWebRtc_afterConfig t (Inr cfg) s)) = CreateOffer (length (pcs s)) True True \<and>
   list_all receive_only (pcs (run es (init v))) \<and>
   list_all receiving_call (calls (run es (init v)))"
proof -
  have "receiving (init v)" by (simp add: receiving_def init_def)
  then have "receiving (run es (init v))" by (rule receiving_run)
  then show ?thesis
    by (simp add: receiving_def startWebRtc_afterConfig_def invoke_def invokes_def suspend_def
        Let_def)
qed

theorem every_connection_is_receive_only_witness:
  "map pc_transceivers (pcs (run answered (init True)))
     = [[(''audio'', ''recvonly''), (''video'', ''recvonly'')]] \<and>
   list_all receive_only (pcs (run answered (init True))) \<and>
   list_all receiving_call (calls (run answered (init True)))"
  using every_connection_is_receive_only [of 0 plain_config "init True" answered True]
  by (simp add: run_answered receive_only_def)

subsection \<open>The order of an attempt\<close>

text \<open>
  Candidates gathered while no session identifier is known and no subscription exists
  end up, in order, as lines of the \<^verbatim>\<open>candidates\<close> string of the attempt.
\<close>

lemma gathered_before_offer:
  assumes "sessionId s = None" and "unsub s = None"
    and "p < length (pcs s)" and "\<not> pc_closed (pcs s ! p)"
  shows "run (map (\<lambda>c. IceCandidate p (Some c)) cs) s
    = s\<lparr>pcs := (pcs s)[p := (pcs s ! p)\<lparr>pc_candidates :=
          pc_candidates (pcs s ! p) @ concat (map candidate_line (filter (\<lambda>c. c \<noteq> []) cs))\<rparr>]\<rparr>"
  using assms
proof (induction cs arbitrary: s)
  case Nil
  then show ?case by simp
next
  case (Cons c cs)
  show ?case
  proof (cases "c = []")
    case True
    with Cons.prems have "step (IceCandidate p (Some c)) s = s"
      by (simp add: dispatches_def onIceCandidate_def)
    with Cons True show ?thesis by simp
  next
    case False
    let ?s' = "s\<lparr>pcs := (pcs s)[p := (pcs s ! p)\<lparr>pc_candidates :=
          pc_candidates (pcs s ! p) @ candidate_line c\<rparr>]\<rparr>"
    from False Cons.prems have st: "step (IceCandidate p (Some c)) s = ?s'"
      by (simp add: dispatches_def onIceCandidate_def map_at_def candidate_line_def)
    from Cons.prems have "sessionId ?s' = None" "unsub ?s' = None" "p < length (pcs ?s')"
      "\<not> pc_closed (pcs ?s' ! p)" by simp_all
    from Cons.IH [OF this] st False Cons.prems show ?thesis by simp
  qed
qed

text \<open>
  In the copy of \<^verbatim>\<open>src/unnamed/part_000\<close>: an attempt that is started in any state \<open>s\<close>
  by an update of \<^verbatim>\<open>entityid\<close> or by a reconnection, whose configuration \<open>cfg\<close>
  arrives, whose offer with SDP \<open>sdp\<close> is created and installed, while the candidates
  \<open>cs\<close> and then \<open>cs'\<close> are gathered, makes after the clean-up exactly these calls in
  this order: the configuration fetch for the entity; the creation of the connection
  from the configuration, with the data channel when the configuration names one, and
  its two transceivers and candidate listener; the creation of the offer and its
  installation as local description; the signalling offer with the SDP followed by one
  line per gathered candidate; and only then the creation of the remote stream and the
  registration of the track listener. The listener renders: a track that the
  connection then announces is added to the remote stream, which becomes the source of
  the video element.
\<close>

lemma attempt_steps_in_order:
  fixes s :: player and e :: event and cfg :: client_config and sdp :: string
    and cs cs' :: "string list"
  defines "t \<equiv> length (tasks s)" and "p \<equiv> length (pcs s)" and "m \<equiv> length (streams s)"
  defines "sF \<equiv> run ([e, ConfigSettled t (Inr cfg)]
               @ map (\<lambda>c. IceCandidate p (Some c)) cs
               @ [OfferSettled t (Inr sdp)]
               @ map (\<lambda>c. IceCandidate p (Some c)) cs'
               @ [LocalSettled t None None]) s"
  assumes start: "e = Updated cp \<and> ''entityid'' \<in> set cp \<or> e = ConnectedCallback \<and> hasUpdated s"
  shows "calls sF = calls (cleanUp s)
     @ [FetchWebRtcClientConfiguration (entityid s),
        NewRTCPeerConnection p (configuration cfg)]
     @ (if truthy (dataChannel cfg) then [CreateDataChannel p (the (dataChannel cfg))] else [])
     @ [AddTransceiver p ''audio'' ''recvonly'', AddTransceiver p ''video'' ''recvonly'',
        ListenIceCandidate p, CreateOffer p True True, SetLocalDescription p sdp,
        WebRtcOffer (entityid s)
          (sdp @ concat (map candidate_line (filter (\<lambda>c. c \<noteq> []) (cs @ cs')))),
        NewMediaStream m, ListenTrack p m]"
    and "peerConnection sF = Some p \<and> remoteStream sF = Some m \<and> tracksOf sF m = []"
    and "tracksOf (step (Track p tr) sF) m = [tr]"
    and "videoEl s \<Longrightarrow> srcObject (step (Track p tr) sF) = Some m"
proof -
  have same: "s\<lparr>hasUpdated := True\<rparr> = s" if "hasUpdated s"
    using that by (cases s) simp
  have e: "step e s = startWebRtc (s\<lparr>hasUpdated := True\<rparr>)"
    using start by (auto simp: updated_def connectedCallback_def same)
  define s2 where "s2 = run [e, ConfigSettled t (Inr cfg)] s"
  have s2: "sessionId s2 = None" "unsub s2 = None" "length (pcs s2) = Suc p"
    "\<not> pc_closed (pcs s2 ! p)" "pc_candidates (pcs s2 ! p) = []"
    "pc_trackStreams (pcs s2 ! p) = []"
    "tasks s2 = tasks s @ [AwaitOffer p]" "peerConnection s2 = Some p"
    "entityid s2 = entityid s" "streams s2 = streams s" "videoEl s2 = videoEl s"
    "calls s2 = calls (cleanUp s)
     @ [FetchWebRtcClientConfiguration (entityid s), NewRTCPeerConnection p (configuration cfg)]
     @ (if truthy (dataChannel cfg) then [CreateDataChannel p (the (dataChannel cfg))] else [])
     @ [AddTransceiver p ''audio'' ''recvonly'', AddTransceiver p ''video'' ''recvonly'',
        ListenIceCandidate p, CreateOffer p True True]"
    by (simp_all add: s2_def e t_def p_def startWebRtc_def startWebRtc_afterConfig_def
        invoke_def invokes_def suspend_def phaseOf_def Let_def nth_append)
  define s2' where "s2' = run (map (\<lambda>c. IceCandidate p (Some c)) cs) s2"
  have s2': "s2' = s2\<lparr>pcs := (pcs s2)[p := (pcs s2 ! p)\<lparr>pc_candidates :=
          pc_candidates (pcs s2 ! p) @ concat (map candidate_line (filter (\<lambda>c. c \<noteq> []) cs))\<rparr>]\<rparr>"
    unfolding s2'_def using s2 by (intro gathered_before_offer) simp_all
  define s3 where "s3 = step (OfferSettled t (Inr sdp)) s2'"
  have s3: "sessionId s3 = None" "unsub s3 = None" "length (pcs s3) = Suc p"
    "\<not> pc_closed (pcs s3 ! p)"
    "pc_candidates (pcs s3 ! p) = concat (map candidate_line (filter (\<lambda>c. c \<noteq> []) cs))"
    "pc_trackStreams (pcs s3 ! p) = []"
    "tasks s3 = tasks s @ [AwaitLocal p sdp]" "peerConnection s3 = Some p"
    "entityid s3 = entityid s" "streams s3 = streams s" "videoEl s3 = videoEl s"
    "calls s3 = calls s2 @ [SetLocalDescription p sdp]"
    using s2 by (simp_all add: s3_def s2' t_def startWebRtc_afterOffer_def invoke_def
        suspend_def phaseOf_def nth_append)
  define s3' where "s3' = run (map (\<lambda>c. IceCandidate p (Some c)) cs') s3"
  have s3': "s3' = s3\<lparr>pcs := (pcs s3)[p := (pcs s3 ! p)\<lparr>pc_candidates :=
          pc_candidates (pcs s3 ! p) @ concat (map candidate_line (filter (\<lambda>c. c \<noteq> []) cs'))\<rparr>]\<rparr>"
    unfolding s3'_def using s3 by (intro gathered_before_offer) simp_all
  have whole: "sF = step (LocalSettled t None None) s3'"
    by (simp only: sF_def run_append s2_def s2'_def s3_def s3'_def run.simps)
  have fin: "calls sF = calls s3
     @ [WebRtcOffer (entityid s)
          (sdp @ concat (map candidate_line (filter (\<lambda>c. c \<noteq> []) (cs @ cs')))),
        NewMediaStream m, ListenTrack p m]"
    "peerConnection sF = Some p" "remoteStream sF = Some m" "streams sF = streams s @ [[]]"
    "length (pcs sF) = Suc p" "\<not> pc_closed (pcs sF ! p)" "pc_trackStreams (pcs sF ! p) = [m]"
    "videoEl sF = videoEl s"
    using s3 by (simp_all add: whole s3' t_def m_def startWebRtc_afterLocal_def phaseOf_def
        candidatesOf_def invoke_def settle_def map_at_def Let_def nth_append)
  show "calls sF = calls (cleanUp s)
     @ [FetchWebRtcClientConfiguration (entityid s),
        NewRTCPeerConnection p (configuration cfg)]
     @ (if truthy (dataChannel cfg) then [CreateDataChannel p (the (dataChannel cfg))] else [])
     @ [AddTransceiver p ''audio'' ''recvonly'', AddTransceiver p ''video'' ''recvonly'',
        ListenIceCandidate p, CreateOffer p True True, SetLocalDescription p sdp,
        WebRtcOffer (entityid s)
          (sdp @ concat (map candidate_line (filter (\<lambda>c. c \<noteq> []) (cs @ cs')))),
        NewMediaStream m, ListenTrack p m]"
    by (simp only: fin(1) s3(12) s2(12)) simp
  show "peerConnection sF = Some p \<and> remoteStream sF = Some m \<and> tracksOf sF m = []"
    using fin by (simp add: tracksOf_def m_def nth_append)
  show "tracksOf (step (Track p tr) sF) m = [tr]"
    using fin by (simp add: dispatches_def onTrack_def onTrack1_def tracksOf_def map_at_def
        m_def Let_def nth_append)
  show "videoEl s \<Longrightarrow> srcObject (step (Track p tr) sF) = Some m"
    using fin by (simp add: dispatches_def onTrack_def onTrack1_def Let_def)
qed

text \<open>
  C8 says that every attempt sends the offer SDP with the locally gathered candidates
  appended. In the copy under \<^verbatim>\<open>src/components\<close> the second attempt does not. The first
  attempt has received the session identifier \<^verbatim>\<open>s1\<close>; the entity changes and the next
  attempt starts without a clean-up, so \<^verbatim>\<open>_sessionId\<close> is still \<^verbatim>\<open>s1\<close>. The steps
  are made in the order of the claim, but the candidate gathered before the offer is
  submitted at once, for the session of the previous attempt, and \<^verbatim>\<open>webRtcOffer\<close> gets
  the SDP without it. On the same events the copy of \<^verbatim>\<open>src/unnamed/part_000\<close> sends the
  SDP with the candidate line and submits nothing.
\<close>

theorem restart_components_offers_without_gathered_candidate:
  "calls (run_components (in_session @ next_attempt) (init True))
     = calls (run_components in_session (init True))
       @ [FetchWebRtcClientConfiguration ''camera.back'',
          NewRTCPeerConnection 1 ''{}'',
          AddTransceiver 1 ''audio'' ''recvonly'', AddTransceiver 1 ''video'' ''recvonly'',
          ListenIceCandidate 1, CreateOffer 1 True True, SetLocalDescription 1 ''v=2'',
          AddWebRtcCandidate ''camera.back'' ''s1'' ''candidate:2'',
          WebRtcOffer ''camera.back'' ''v=2'',
          NewMediaStream 1, ListenTrack 1 1] \<and>
   filter is_negotiation (calls (run (in_session @ next_attempt) (init True)))
     = [FetchWebRtcClientConfiguration ''camera.front'', WebRtcOffer ''camera.front'' ''v=0'',
        FetchWebRtcClientConfiguration ''camera.back'',
        WebRtcOffer ''camera.back'' (''v=2'' @ candidate_line ''candidate:2'')]"
proof -
  have "calls (run_components (in_session @ next_attempt) (init True))
     = calls (run_components in_session (init True))
       @ [FetchWebRtcClientConfiguration ''camera.back'',
          NewRTCPeerConnection 1 ''{}'',
          AddTransceiver 1 ''audio'' ''recvonly'', AddTransceiver 1 ''video'' ''recvonly'',
          ListenIceCandidate 1, CreateOffer 1 True True, SetLocalDescription 1 ''v=2'',
          AddWebRtcCandidate ''camera.back'' ''s1'' ''candidate:2'',
          WebRtcOffer ''camera.back'' ''v=2'',
          NewMediaStream 1, ListenTrack 1 1]"
    by (simp add: run_components_append run_components_in_session next_attempt_def
        plain_config_def components_defs onIceCandidate_def helper_defs)
  moreover have "filter is_negotiation (calls (run (in_session @ next_attempt) (init True)))
     = [FetchWebRtcClientConfiguration ''camera.front'', WebRtcOffer ''camera.front'' ''v=0'',
        FetchWebRtcClientConfiguration ''camera.back'',
        WebRtcOffer ''camera.back'' (''v=2'' @ candidate_line ''candidate:2'')]"
    by (simp add: run_append run_in_session run_subscribed next_attempt_def plain_config_def
        method_defs is_negotiation_def candidate_line_def helper_defs)
  ultimately show ?thesis by (rule conjI)
qed

subsection \<open>Local candidates\<close>

text \<open>
  C9. The \<^verbatim>\<open>icecandidate\<close> listener treats an event in exactly one of four ways, chosen
  by the event and the state. A candidate string that is missing or empty: nothing
  changes. Otherwise, a session identifier that is known (the test is
  \<^verbatim>\<open>if (this._sessionId)\<close>: defined and not empty): the candidate is submitted at once
  with \<^verbatim>\<open>addWebRtcCandidate\<close>, and nothing else changes. Otherwise, an unsubscribe handle
  that exists: the candidate is appended to the pending list, and nothing else changes.
  Otherwise the line \<^verbatim>\<open>a=<candidate>\r\n\<close> is appended to the \<^verbatim>\<open>candidates\<close> string that
  goes into the offer SDP, and nothing else changes.
\<close>

theorem ice_candidate_dispatch:
  "(\<not> truthy cand \<longrightarrow> onIceCandidate p cand s = s) \<and>
   (truthy cand \<and> truthy (sessionId s) \<longrightarrow>
      onIceCandidate p cand s
        = s\<lparr>calls := calls s
              @ [AddWebRtcCandidate (entityid s) (the (sessionId s)) (the cand)]\<rparr>) \<and>
   (truthy cand \<and> \<not> truthy (sessionId s) \<and> unsub s \<noteq> None \<longrightarrow>
      onIceCandidate p cand s = s\<lparr>candidatesList := candidatesList s @ [the cand]\<rparr>) \<and>
   (truthy cand \<and> \<not> truthy (sessionId s) \<and> unsub s = None \<longrightarrow>
      onIceCandidate p cand s
        = s\<lparr>pcs := map_at p
               (\<lambda>pc. pc\<lparr>pc_candidates := pc_candidates pc @ ''a='' @ the cand @ crlf\<rparr>)
               (pcs s)\<rparr> \<and>
      (p < length (pcs s) \<longrightarrow>
         candidatesOf (onIceCandidate p cand s) p
           = candidatesOf s p @ ''a='' @ the cand @ [CHR 0x0D, CHR 0x0A]))"
  by (simp add: onIceCandidate_def invoke_def candidatesOf_def map_at_def crlf_def)

theorem ice_candidate_dispatch_witness:
  "onIceCandidate 0 (Some '''') (run answered (init True)) = run answered (init True) \<and>
   onIceCandidate 0 None (run answered (init True)) = run answered (init True) \<and>
   calls (onIceCandidate 0 (Some ''candidate:2'') (run answered (init True)))
     = calls (run answered (init True))
       @ [AddWebRtcCandidate ''camera.front'' ''s1'' ''candidate:2''] \<and>
   candidatesList (onIceCandidate 0 (Some ''candidate:2'') (run subscribed (init True)))
     = [''candidate:2''] \<and>
   candidatesOf (onIceCandidate 0 (Some ''candidate:2'') (run offer_installed (init True))) 0
     = ''a=candidate:2'' @ [CHR 0x0D, CHR 0x0A]"
  using ice_candidate_dispatch [of "Some ''''" 0 "run answered (init True)"]
        ice_candidate_dispatch [of None 0 "run answered (init True)"]
        ice_candidate_dispatch [of "Some ''candidate:2''" 0 "run answered (init True)"]
        ice_candidate_dispatch [of "Some ''candidate:2''" 0 "run subscribed (init True)"]
        ice_candidate_dispatch [of "Some ''candidate:2''" 0 "run offer_installed (init True)"]
  by (simp add: example_runs onIceCandidate_def invoke_def candidatesOf_def map_at_def crlf_def)

subsection \<open>The session identifier\<close>

text \<open>
  C10. When a \<^verbatim>\<open>session_id\<close> event is handled, the calls made are exactly one
  \<^verbatim>\<open>addWebRtcCandidate\<close> per buffered candidate, with the entity and the received session
  identifier, in the order of the pending list; the session identifier is stored and
  the pending list is empty afterwards, so that a second \<^verbatim>\<open>session_id\<close> event makes no
  further call: no buffered candidate is dropped or submitted twice.
\<close>

theorem session_id_flushes_pending_candidates:
  "calls (step (OfferEvent (Session_id sid)) s)
     = calls s @ map (AddWebRtcCandidate (entityid s) sid) (candidatesList s) \<and>
   candidatesList (step (OfferEvent (Session_id sid)) s) = [] \<and>
   sessionId (step (OfferEvent (Session_id sid)) s) = Some sid \<and>
   calls (step (OfferEvent (Session_id sid')) (step (OfferEvent (Session_id sid)) s))
     = calls (step (OfferEvent (Session_id sid)) s)"
  by (simp add: handleOfferEvent_def invokes_def)


end
